theory Spec2Isabelle
  imports Main "HOL-Library.Word"
begin

section \<open>The virtual greenscreen filter instance\<close>

text \<open>
  A shallow embedding of \<^verbatim>\<open>source/filters/filter-virtual-greenscreen.cpp\<close>: the provider
  switch (\<^verbatim>\<open>update\<close>, \<^verbatim>\<open>switch_provider\<close>, \<^verbatim>\<open>task_switch_provider\<close>) and the frame pipeline
  (\<^verbatim>\<open>video_tick\<close>, \<^verbatim>\<open>video_render\<close>) of \<^verbatim>\<open>virtual_greenscreen_instance\<close>, built with
  \<^verbatim>\<open>ENABLE_FILTER_VIRTUAL_GREENSCREEN_NVIDIA\<close> defined (without it the factory registers no
  filter and no instance is ever made).

  Granularity. Every member function is one function on the state: a call of \<^verbatim>\<open>update\<close>,
  \<^verbatim>\<open>video_tick\<close>, \<^verbatim>\<open>video_render\<close>, the destructor, and one run of a switch task are each taken
  as a whole; interleavings of two calls inside their bodies are not part of the model.
  What a call does to the host, the thread pool and the provider is appended to a trace of
  events, so that the order of those effects can be stated.

  Exceptions. A call into the provider may throw exactly where the source wraps it in
  \<^verbatim>\<open>try\<close>; the thrown object is a parameter. Calls made outside any \<^verbatim>\<open>try\<close> block
  (\<^verbatim>\<open>nvvfxgs_size\<close> in \<^verbatim>\<open>video_tick\<close>, \<^verbatim>\<open>nvvfxgs_update\<close> in \<^verbatim>\<open>update\<close>) are taken to return
  normally. The release of the provider object, \<^verbatim>\<open>_nvidia_fx.reset()\<close>, is \<^verbatim>\<open>noexcept\<close>: it
  throws nothing into its caller, inside a \<^verbatim>\<open>try\<close> block or not (a destructor that threw
  would end the process in \<^verbatim>\<open>std::terminate\<close>; the model follows the process while it
  runs).
\<close>

subsection \<open>Data\<close>

text \<open>The enumeration \<^verbatim>\<open>virtual_greenscreen_provider\<close>, with the three enumerators the source names.\<close>

datatype virtual_greenscreen_provider = INVALID | AUTOMATIC | NVIDIA_GREENSCREEN

text \<open>Handles of host objects: a texture, a source.\<close>

type_synonym texture = nat
type_synonym obs_source = nat
type_synonym frame_size = "32 word \<times> 32 word"

text \<open>
  What a C++ call throws: an object derived from \<^verbatim>\<open>std::exception\<close> (with its \<^verbatim>\<open>what()\<close>), or
  an object of any other type. \<^verbatim>\<open>catch (std::exception const&)\<close> takes the first kind only,
  \<^verbatim>\<open>catch (...)\<close> both.
\<close>

datatype exn = Std_exception string | Other_exception

datatype 'a outcome = Returns 'a | Throws exn

text \<open>
  The settings \<^verbatim>\<open>obs_data_t\<close>, by the two keys the file reads: \<^verbatim>\<open>Provider\<close> (already cast to
  the enumeration) and \<^verbatim>\<open>NVIDIA.Greenscreen.Mode\<close>, the 64-bit integer that
  \<^verbatim>\<open>obs_data_get_int\<close> returns.
\<close>

record obs_data =
  data_provider :: virtual_greenscreen_provider
  data_mode :: "64 word"

text \<open>
  \<^verbatim>\<open>static_cast<greenscreen_mode>\<close> of that integer. The enumeration is declared in a header
  that is not among the sources; an \<^verbatim>\<open>enum class\<close> with no underlying type given has the
  underlying type \<^verbatim>\<open>int\<close>, 32 bits, and the cast keeps the low 32 bits of the setting.
\<close>

definition greenscreen_mode_of :: "64 word \<Rightarrow> 32 word" where
  "greenscreen_mode_of v = ucast v"

text \<open>
  The provider object \<^verbatim>\<open>::streamfx::nvidia::vfx::greenscreen\<close> held in \<^verbatim>\<open>_nvidia_fx\<close>: the mode
  last given to \<^verbatim>\<open>set_mode\<close>, the size last given to \<^verbatim>\<open>size\<close>, and which object it is (every
  object the constructor makes has an identity of its own).
\<close>

record greenscreen =
  gs_mode :: "32 word option"
  gs_size :: "frame_size option"
  gs_id :: nat

text \<open>
  The compositing effect \<^verbatim>\<open>_effect\<close>: which named parameters it has, and how many passes the
  technique \<^verbatim>\<open>DrawAlphaThreshold\<close> runs (how often \<^verbatim>\<open>gs_effect_loop\<close> answers true).
\<close>

record gs_effect =
  has_texture_parameter :: "string \<Rightarrow> bool"
  has_float_parameter :: "string \<Rightarrow> bool"
  passes :: nat

text \<open>\<^verbatim>\<open>struct switch_provider_data_t\<close>: the data a switch task is given.\<close>

record switch_provider_data_t =
  spd_provider :: virtual_greenscreen_provider

text \<open>
  The effects a call has outside the instance, and its writes of \<^verbatim>\<open>_provider_ready\<close>.
  \<open>Fx_unload\<close> and \<open>Fx_load\<close> are the calls of \<^verbatim>\<open>nvvfxgs_unload\<close> and \<^verbatim>\<open>nvvfxgs_load\<close>;
  \<open>Fx_created\<close> is the constructor of a provider object returning, \<open>Fx_released\<close> the
  instance letting go of one.
\<close>

datatype event =
    Log_switching virtual_greenscreen_provider virtual_greenscreen_provider
  | Log_switched virtual_greenscreen_provider virtual_greenscreen_provider
  | Log_switch_failed string
  | Log_effect_failed
  | Pool_pop nat
  | Task_await nat
  | Pool_push nat
  | Set_provider_ready bool
  | Fx_unload
  | Fx_released nat
  | Fx_load
  | Fx_created nat
  | Get_settings
  | Fx_set_mode "32 word"
  | Fx_size frame_size
  | Skip_video_filter
  | Filter_begin bool
  | Capture frame_size
  | Fx_process texture
  | Fx_get_color
  | Set_texture string texture
  | Set_float string nat
  | Draw_sprite "32 word" "32 word"
  | Null_effect_dereferenced

text \<open>
  The members of \<^verbatim>\<open>virtual_greenscreen_instance\<close> (\<^verbatim>\<open>_size\<close> is \<open>size_field\<close>, \<^verbatim>\<open>_provider\<close> is
  \<open>provider\<close>, and so on; \<open>input\<close> is the texture of the render target \<^verbatim>\<open>_input\<close>;
  \<open>provider_task\<close> is the handle of the task last pushed, if it was not reset).
\<close>

record virtual_greenscreen_instance =
  size_field :: frame_size
  provider :: virtual_greenscreen_provider
  provider_ui :: virtual_greenscreen_provider
  provider_ready :: bool
  provider_task :: "nat option"
  nvidia_fx :: "greenscreen option"
  effect :: "gs_effect option"
  input :: texture
  output_color :: texture
  output_alpha :: texture
  dirty :: bool

text \<open>
  The instance together with what surrounds it: the switch tasks of this instance that
  wait in the thread pool's queue (handle and data, oldest first), the next free handle,
  the identity the next provider object will have, and the trace of events so far.
\<close>

record world = virtual_greenscreen_instance +
  pool_queue :: "(nat \<times> switch_provider_data_t) list"
  pool_next :: nat
  fx_next :: nat
  trace :: "event list"

definition emit :: "event \<Rightarrow> world \<Rightarrow> world" where
  "emit e w = w\<lparr>trace := trace w @ [e]\<rparr>"

text \<open>
  The result of a piece of code that may throw: it returned, or it threw; either way with
  the state it left behind.
\<close>

datatype result = Ok world | Raised exn world

fun state_of :: "result \<Rightarrow> world" where
  "state_of (Ok w) = w"
| "state_of (Raised e w) = w"

fun and_then :: "result \<Rightarrow> (world \<Rightarrow> result) \<Rightarrow> result" where
  "and_then (Ok w) f = f w"
| "and_then (Raised e w) f = Raised e w"

subsection \<open>The factory's provider choice\<close>

record virtual_greenscreen_factory =
  nvidia_available :: bool

definition provider_priority :: "virtual_greenscreen_provider list" where
  "provider_priority = [NVIDIA_GREENSCREEN]"

fun is_provider_available ::
  "virtual_greenscreen_factory \<Rightarrow> virtual_greenscreen_provider \<Rightarrow> bool" where
  "is_provider_available f NVIDIA_GREENSCREEN = nvidia_available f"
| "is_provider_available f _ = False"

text \<open>The loop of \<^verbatim>\<open>find_ideal_provider\<close> over the priority table.\<close>

fun find_ideal_in ::
  "virtual_greenscreen_factory \<Rightarrow> virtual_greenscreen_provider list \<Rightarrow> virtual_greenscreen_provider" where
  "find_ideal_in f [] = AUTOMATIC"
| "find_ideal_in f (v # vs) = (if is_provider_available f v then v else find_ideal_in f vs)"

definition find_ideal_provider ::
  "virtual_greenscreen_factory \<Rightarrow> virtual_greenscreen_provider" where
  "find_ideal_provider f = find_ideal_in f provider_priority"

subsection \<open>The provider adapter: the \<^verbatim>\<open>nvvfxgs_*\<close> members\<close>

text \<open>
  \<^verbatim>\<open>nvvfxgs_load\<close>: \<^verbatim>\<open>_nvidia_fx = make_shared<greenscreen>()\<close>. The constructor runs first
  and may throw, which leaves \<^verbatim>\<open>_nvidia_fx\<close> as it was; when it returns, the assignment lets
  go of the object held until then, if there was one.
\<close>

definition nvvfxgs_load :: "unit outcome \<Rightarrow> world \<Rightarrow> result" where
  "nvvfxgs_load ctor w =
     (case ctor of
        Throws e \<Rightarrow> Raised e (emit Fx_load w)
      | Returns _ \<Rightarrow>
          (let w1 = emit (Fx_created (fx_next w)) (emit Fx_load w);
               w2 = (case nvidia_fx w of
                       None \<Rightarrow> w1
                     | Some old \<Rightarrow> emit (Fx_released (gs_id old)) w1)
           in Ok (w2\<lparr>nvidia_fx := Some \<lparr>gs_mode = None, gs_size = None, gs_id = fx_next w\<rparr>,
                      fx_next := Suc (fx_next w)\<rparr>)))"

text \<open>
  \<^verbatim>\<open>nvvfxgs_unload\<close>: \<^verbatim>\<open>_nvidia_fx.reset()\<close>, which lets go of the object held, if there is
  one, and throws nothing.
\<close>

definition nvvfxgs_unload :: "world \<Rightarrow> world" where
  "nvvfxgs_unload w =
     (let w1 = emit Fx_unload w in
      (case nvidia_fx w of
         None \<Rightarrow> w1
       | Some g \<Rightarrow> emit (Fx_released (gs_id g)) w1)\<lparr>nvidia_fx := None\<rparr>)"

text \<open>
  \<^verbatim>\<open>nvvfxgs_update\<close>: nothing without a provider object, else \<^verbatim>\<open>set_mode\<close> with the mode read
  from the data and cast to the enumeration.
\<close>

definition nvvfxgs_update :: "unit outcome \<Rightarrow> obs_data \<Rightarrow> world \<Rightarrow> result" where
  "nvvfxgs_update set_mode d w =
     (case nvidia_fx w of
        None \<Rightarrow> Ok w
      | Some g \<Rightarrow>
          (case set_mode of
             Throws e \<Rightarrow> Raised e (emit (Fx_set_mode (greenscreen_mode_of (data_mode d))) w)
           | Returns _ \<Rightarrow>
               Ok ((emit (Fx_set_mode (greenscreen_mode_of (data_mode d))) w)
                     \<lparr>nvidia_fx := Some (g\<lparr>gs_mode := Some (greenscreen_mode_of (data_mode d))\<rparr>)\<rparr>)))"

text \<open>
  \<^verbatim>\<open>nvvfxgs_size\<close>: nothing without a provider object, else \<^verbatim>\<open>_nvidia_fx->size(_size)\<close>, which
  may restrict \<^verbatim>\<open>_size\<close>; \<open>restrict\<close> is what the provider makes of the size.
\<close>

definition nvvfxgs_size :: "(frame_size \<Rightarrow> frame_size) \<Rightarrow> world \<Rightarrow> world" where
  "nvvfxgs_size restrict w =
     (case nvidia_fx w of
        None \<Rightarrow> w
      | Some g \<Rightarrow>
          (emit (Fx_size (size_field w)) w)
            \<lparr>size_field := restrict (size_field w),
             nvidia_fx := Some (g\<lparr>gs_size := Some (restrict (size_field w))\<rparr>)\<rparr>)"

text \<open>
  \<^verbatim>\<open>nvvfxgs_process(color, alpha)\<close>, called with \<^verbatim>\<open>_output_color\<close> and \<^verbatim>\<open>_output_alpha\<close>: nothing
  without a provider object, else \<^verbatim>\<open>alpha = process(_input->get_texture())\<close> and then
  \<^verbatim>\<open>color = get_color()\<close>; either call may throw.
\<close>

definition nvvfxgs_process :: "texture outcome \<Rightarrow> texture outcome \<Rightarrow> world \<Rightarrow> result" where
  "nvvfxgs_process process get_color w =
     (case nvidia_fx w of
        None \<Rightarrow> Ok w
      | Some g \<Rightarrow>
          (case process of
             Throws e \<Rightarrow> Raised e (emit (Fx_process (input w)) w)
           | Returns a \<Rightarrow>
               (let w1 = (emit (Fx_process (input w)) w)\<lparr>output_alpha := a\<rparr> in
                case get_color of
                  Throws e \<Rightarrow> Raised e (emit Fx_get_color w1)
                | Returns c \<Rightarrow> Ok ((emit Fx_get_color w1)\<lparr>output_color := c\<rparr>))))"

subsection \<open>The thread pool\<close>

text \<open>
  Modelled from the spec: the thread pool (\<^verbatim>\<open>streamfx::threadpool()\<close>, its \<^verbatim>\<open>push\<close> and \<^verbatim>\<open>pop\<close>,
  and \<^verbatim>\<open>task::await_completion\<close>) is not among the sources. \<open>threadpool_push\<close> queues a new
  task behind those that wait and gives back its handle.
\<close>

definition threadpool_push :: "switch_provider_data_t \<Rightarrow> world \<Rightarrow> nat \<times> world" where
  "threadpool_push spd w =
     (pool_next w,
      (emit (Pool_push (pool_next w)) w)
        \<lparr>pool_queue := pool_queue w @ [(pool_next w, spd)], pool_next := Suc (pool_next w)\<rparr>)"

text \<open>
  Modelled from the spec: ``a queued-but-not-yet-started switch task can be dequeued and
  discarded''. \<open>threadpool_pop\<close> takes the task out of the queue if it still waits there.
\<close>

definition threadpool_pop :: "nat \<Rightarrow> world \<Rightarrow> world" where
  "threadpool_pop t w =
     (emit (Pool_pop t) w)\<lparr>pool_queue := filter (\<lambda>q. fst q \<noteq> t) (pool_queue w)\<rparr>"

text \<open>
  Modelled from the spec: ``a running task is awaited to completion rather than
  interrupted''. With every run of a task taken as a whole, no task is running while
  another call is under way, so \<open>await_completion\<close> has nothing to wait for and returns.
\<close>

definition await_completion :: "nat \<Rightarrow> world \<Rightarrow> world" where
  "await_completion t w = emit (Task_await t) w"

subsection \<open>Switching the provider\<close>

text \<open>
  The part shared by \<^verbatim>\<open>switch_provider\<close> and the destructor: if \<^verbatim>\<open>_provider_task\<close> is set,
  pop it from the pool, await it and reset the handle.
\<close>

definition dequeue_task :: "world \<Rightarrow> world" where
  "dequeue_task w =
     (case provider_task w of
        None \<Rightarrow> w
      | Some t \<Rightarrow> (await_completion t (threadpool_pop t w))\<lparr>provider_task := None\<rparr>)"

text \<open>
  \<^verbatim>\<open>switch_provider\<close>: return if the kind is the current one; log; dequeue the existing task;
  keep the old kind for the task and record the new one; push the new task.
\<close>

definition switch_provider :: "virtual_greenscreen_provider \<Rightarrow> world \<Rightarrow> world" where
  "switch_provider p w =
     (if p = provider w then w
      else
        (let w1 = emit (Log_switching (provider w) p) w;
             w2 = dequeue_task w1;
             spd = \<lparr>spd_provider = provider w2\<rparr>;
             w3 = w2\<lparr>provider := p\<rparr>;
             (t, w4) = threadpool_push spd w3
         in w4\<lparr>provider_task := Some t\<rparr>))"

text \<open>
  What a run of the switch task meets: whether the new provider's constructor and
  \<^verbatim>\<open>set_mode\<close> return or throw, and the settings that \<^verbatim>\<open>obs_source_get_settings(_self)\<close>
  gives at that moment.
\<close>

record task_env =
  on_load :: "unit outcome"
  on_set_mode :: "unit outcome"
  stored_settings :: obs_data

text \<open>The body of the \<^verbatim>\<open>try\<close> block of \<^verbatim>\<open>task_switch_provider\<close>.\<close>

definition task_unload_previous :: "switch_provider_data_t \<Rightarrow> world \<Rightarrow> result" where
  "task_unload_previous spd w =
     (case spd_provider spd of
        NVIDIA_GREENSCREEN \<Rightarrow> Ok (nvvfxgs_unload w)
      | _ \<Rightarrow> Ok w)"

definition task_load_new :: "task_env \<Rightarrow> world \<Rightarrow> result" where
  "task_load_new env w =
     (case provider w of
        NVIDIA_GREENSCREEN \<Rightarrow>
          and_then (nvvfxgs_load (on_load env) w)
            (\<lambda>w1. nvvfxgs_update (on_set_mode env) (stored_settings env) (emit Get_settings w1))
      | _ \<Rightarrow> Ok w)"

definition task_try_body :: "task_env \<Rightarrow> switch_provider_data_t \<Rightarrow> world \<Rightarrow> result" where
  "task_try_body env spd w =
     and_then (and_then (task_unload_previous spd w) (task_load_new env))
       (\<lambda>w2. Ok ((emit (Set_provider_ready True)
                     (emit (Log_switched (spd_provider spd) (provider w2)) w2))
                   \<lparr>provider_ready := True\<rparr>))"

text \<open>
  \<^verbatim>\<open>task_switch_provider\<close>: clear \<^verbatim>\<open>_provider_ready\<close>, take the lock, run the \<^verbatim>\<open>try\<close> block;
  \<^verbatim>\<open>catch (std::exception const& ex)\<close> logs \<^verbatim>\<open>ex.what()\<close>, anything else thrown leaves the
  function.
\<close>

definition task_switch_provider :: "task_env \<Rightarrow> switch_provider_data_t \<Rightarrow> world \<Rightarrow> result" where
  "task_switch_provider env spd w =
     (let w1 = (emit (Set_provider_ready False) w)\<lparr>provider_ready := False\<rparr> in
      case task_try_body env spd w1 of
        Ok w2 \<Rightarrow> Ok w2
      | Raised (Std_exception what) w2 \<Rightarrow> Ok (emit (Log_switch_failed what) w2)
      | Raised Other_exception w2 \<Rightarrow> Raised Other_exception w2)"

text \<open>
  Modelled from the spec: the pool's worker is not among the sources. It takes the task
  at the head of the queue and runs the function bound into it, here
  \<open>task_switch_provider\<close>, on the task's data; an exception that leaves the function is
  dropped here.
\<close>

definition threadpool_worker :: "task_env \<Rightarrow> world \<Rightarrow> world" where
  "threadpool_worker env w =
     (case pool_queue w of
        [] \<Rightarrow> w
      | (t, spd) # q \<Rightarrow> state_of (task_switch_provider env spd (w\<lparr>pool_queue := q\<rparr>)))"

subsection \<open>Settings\<close>

text \<open>
  \<^verbatim>\<open>update\<close>: read the provider kind, resolve \<^verbatim>\<open>AUTOMATIC\<close> through the factory, switch if the
  kind differs from \<^verbatim>\<open>_provider\<close>, and pass the data to the provider if it is ready.
\<close>

definition update :: "virtual_greenscreen_factory \<Rightarrow> obs_data \<Rightarrow> world \<Rightarrow> world" where
  "update fac d w =
     (let p0 = data_provider d;
          p = (if p0 = AUTOMATIC then find_ideal_provider fac else p0);
          w1 = (if p \<noteq> provider w then switch_provider p (w\<lparr>provider_ui := p\<rparr>) else w)
      in if provider_ready w1
         then (case provider w1 of
                 NVIDIA_GREENSCREEN \<Rightarrow> state_of (nvvfxgs_update (Returns ()) d w1)
               | _ \<Rightarrow> w1)
         else w1)"

subsection \<open>Construction and destruction\<close>

text \<open>
  The constructor: the member initialisers, the render target (whose texture is
  \<open>tex\<close>), the effect (\<open>eff\<close>: the loaded effect, or what loading threw, which
  \<^verbatim>\<open>catch (...)\<close> logs), and \<^verbatim>\<open>load(data)\<close>, which is \<^verbatim>\<open>update(data)\<close>, if there is data.
\<close>

definition members_initialised :: "texture \<Rightarrow> world" where
  "members_initialised tex =
     \<lparr>size_field = (1, 1), provider = INVALID, provider_ui = INVALID, provider_ready = False,
      provider_task = None, nvidia_fx = None, effect = None, input = tex,
      output_color = tex, output_alpha = tex, dirty = True,
      pool_queue = [], pool_next = 0, fx_next = 0, trace = []\<rparr>"

definition construct ::
  "virtual_greenscreen_factory \<Rightarrow> texture \<Rightarrow> gs_effect outcome \<Rightarrow> obs_data option \<Rightarrow> world" where
  "construct fac tex eff data =
     (let w0 = members_initialised tex;
          w1 = (case eff of
                  Returns e \<Rightarrow> w0\<lparr>effect := Some e\<rparr>
                | Throws x \<Rightarrow> emit Log_effect_failed w0)
      in case data of None \<Rightarrow> w1 | Some d \<Rightarrow> update fac d w1)"

text \<open>
  The destructor, up to the release of the members: dequeue the task, then unload the
  provider of the current kind.
\<close>

definition destroy :: "world \<Rightarrow> world" where
  "destroy w =
     (let w1 = dequeue_task w in
      case provider w1 of
        NVIDIA_GREENSCREEN \<Rightarrow> nvvfxgs_unload w1
      | _ \<Rightarrow> w1)"

subsection \<open>The frame pipeline\<close>

text \<open>
  What the host answers during a tick: the filter's target, the base size of a source
  (asked of the target, which may be null), and what the provider makes of the size.
\<close>

record tick_env =
  tick_target :: "obs_source option"
  tick_base_width :: "obs_source option \<Rightarrow> 32 word"
  tick_base_height :: "obs_source option \<Rightarrow> 32 word"
  tick_restrict :: "frame_size \<Rightarrow> frame_size"

definition video_tick :: "tick_env \<Rightarrow> world \<Rightarrow> world" where
  "video_tick env w =
     (let target = tick_target env;
          width = tick_base_width env target;
          height = tick_base_height env target;
          w1 = w\<lparr>size_field := (width, height)\<rparr>;
          w2 = (if target \<noteq> None \<and> provider_ready w1
                then (case provider w1 of
                        NVIDIA_GREENSCREEN \<Rightarrow> nvvfxgs_size (tick_restrict env) w1
                      | _ \<Rightarrow> w1)
                else w1)
      in w2\<lparr>dirty := True\<rparr>)"

text \<open>\<^verbatim>\<open>get_width\<close> and \<^verbatim>\<open>get_height\<close>: the size, at least 1.\<close>

definition get_width :: "world \<Rightarrow> 32 word" where
  "get_width w = max (fst (size_field w)) 1"

definition get_height :: "world \<Rightarrow> 32 word" where
  "get_height w = max (snd (size_field w)) 1"

text \<open>
  What a render call meets: the filter's parent and target, the base size of a source,
  whether \<^verbatim>\<open>obs_source_process_filter_begin\<close> succeeds, the texture of the render target
  after the capture, and what the provider's \<^verbatim>\<open>process\<close> and \<^verbatim>\<open>get_color\<close> do.
\<close>

record render_env =
  render_parent :: "obs_source option"
  render_target :: "obs_source option"
  render_base_width :: "obs_source option \<Rightarrow> 32 word"
  render_base_height :: "obs_source option \<Rightarrow> 32 word"
  filter_begin :: bool
  captured_texture :: texture
  on_process :: "texture outcome"
  on_get_color :: "texture outcome"

text \<open>
  The last block of \<^verbatim>\<open>video_render\<close>: bind the colour and alpha textures and the two
  thresholds (in millionths) where the effect has the parameter, and draw a sprite of the
  frame size in every pass. The source dereferences \<^verbatim>\<open>_effect\<close> unchecked; where the
  constructor could not load it the model records that and goes no further.
\<close>

definition composite_events :: "world \<Rightarrow> event list" where
  "composite_events w =
     (case effect w of
        None \<Rightarrow> [Null_effect_dereferenced]
      | Some e \<Rightarrow>
          (if has_texture_parameter e ''InputA'' then [Set_texture ''InputA'' (output_color w)] else [])
          @ (if has_texture_parameter e ''InputB'' then [Set_texture ''InputB'' (output_alpha w)] else [])
          @ (if has_float_parameter e ''Threshold'' then [Set_float ''Threshold'' 666667] else [])
          @ (if has_float_parameter e ''ThresholdRange'' then [Set_float ''ThresholdRange'' 333333] else [])
          @ replicate (passes e) (Draw_sprite (fst (size_field w)) (snd (size_field w))))"

definition composite :: "world \<Rightarrow> world" where
  "composite w = w\<lparr>trace := trace w @ composite_events w\<rparr>"

text \<open>The capture block: render the upstream frame into \<^verbatim>\<open>_input\<close> and take its texture.\<close>

definition capture :: "render_env \<Rightarrow> world \<Rightarrow> world" where
  "capture env w =
     (emit (Capture (size_field w)) (emit (Filter_begin True) w))
       \<lparr>input := captured_texture env,
        output_color := captured_texture env,
        output_alpha := captured_texture env\<rparr>"

text \<open>The \<^verbatim>\<open>try\<close> block of \<^verbatim>\<open>video_render\<close>: process with the provider of the current kind.\<close>

definition process :: "render_env \<Rightarrow> world \<Rightarrow> result" where
  "process env w =
     (case provider w of
        NVIDIA_GREENSCREEN \<Rightarrow> nvvfxgs_process (on_process env) (on_get_color env) w
      | _ \<Rightarrow> Ok w)"

definition video_render :: "render_env \<Rightarrow> world \<Rightarrow> world" where
  "video_render env w =
     (let width = render_base_width env (render_target env);
          height = render_base_height env (render_target env);
          target = (case render_target env of Some t \<Rightarrow> Some t | None \<Rightarrow> render_parent env)
      in if \<not> provider_ready w \<or> target = None \<or> width = 0 \<or> height = 0
         then emit Skip_video_filter w
         else if dirty w
         then (if filter_begin env
               then (case process env (capture env w) of
                       Raised e w1 \<Rightarrow> emit Skip_video_filter w1
                     | Ok w1 \<Rightarrow> composite (w1\<lparr>dirty := False\<rparr>))
               else emit Skip_video_filter (emit (Filter_begin False) w))
         else composite w)"

subsection \<open>Runs\<close>

text \<open>
  The calls that reach a live instance, and runs of them from a constructed instance.
\<close>

datatype action =
    Update obs_data
  | Switch_provider virtual_greenscreen_provider
  | Worker task_env
  | Video_tick tick_env
  | Video_render render_env

fun step :: "virtual_greenscreen_factory \<Rightarrow> action \<Rightarrow> world \<Rightarrow> world" where
  "step fac (Update d) w = update fac d w"
| "step fac (Switch_provider p) w = switch_provider p w"
| "step fac (Worker env) w = threadpool_worker env w"
| "step fac (Video_tick env) w = video_tick env w"
| "step fac (Video_render env) w = video_render env w"

fun run :: "virtual_greenscreen_factory \<Rightarrow> action list \<Rightarrow> world \<Rightarrow> world" where
  "run fac [] w = w"
| "run fac (a # as) w = run fac as (step fac a w)"

subsection \<open>Notions used to state the properties\<close>

text \<open>How often the trace records a capture, and a call of the provider's \<^verbatim>\<open>process\<close>.\<close>

fun is_capture :: "event \<Rightarrow> bool" where
  "is_capture (Capture s) = True"
| "is_capture _ = False"

fun is_process :: "event \<Rightarrow> bool" where
  "is_process (Fx_process t) = True"
| "is_process _ = False"

definition n_captures :: "world \<Rightarrow> nat" where
  "n_captures w = length (filter is_capture (trace w))"

definition n_processes :: "world \<Rightarrow> nat" where
  "n_processes w = length (filter is_process (trace w))"

text \<open>The events a call added to the trace of the state \<open>w\<close> it started from.\<close>

definition events_since :: "world \<Rightarrow> world \<Rightarrow> event list" where
  "events_since w w' = drop (length (trace w)) (trace w')"

fun throws :: "'a outcome \<Rightarrow> bool" where
  "throws (Throws e) = True"
| "throws (Returns x) = False"

text \<open>
  What a run of the switch task meets first: the object thrown by the first step that
  fails, of the load of the current kind and the \<^verbatim>\<open>set_mode\<close> that follows it; \<open>None\<close>
  when every step returns.
\<close>

definition first_thrown :: "task_env \<Rightarrow> virtual_greenscreen_provider \<Rightarrow> exn option" where
  "first_thrown env current =
     (if current = NVIDIA_GREENSCREEN
      then (case on_load env of
              Throws e \<Rightarrow> Some e
            | Returns _ \<Rightarrow>
                (case on_set_mode env of Throws e \<Rightarrow> Some e | Returns _ \<Rightarrow> None))
      else None)"

text \<open>The invariant of the data model: an \<^verbatim>\<open>INVALID\<close> provider is never ready.\<close>

definition invalid_not_ready :: "world \<Rightarrow> bool" where
  "invalid_not_ready w = (provider w = INVALID \<longrightarrow> \<not> provider_ready w)"

text \<open>
  The pool holds no switch task of the instance, or exactly one, and then it is the one
  \<^verbatim>\<open>_provider_task\<close> refers to.
\<close>

definition task_tracked :: "world \<Rightarrow> bool" where
  "task_tracked w =
     (pool_queue w = [] \<or> (\<exists>t spd. pool_queue w = [(t, spd)] \<and> provider_task w = Some t))"

text \<open>An instance of kind \<^verbatim>\<open>INVALID\<close> is not ready and has no switch task waiting.\<close>

definition invalid_idle :: "world \<Rightarrow> bool" where
  "invalid_idle w = (provider w = INVALID \<longrightarrow> \<not> provider_ready w \<and> pool_queue w = [])"

text \<open>The kind \<^verbatim>\<open>update\<close> asks for: the setting, with \<^verbatim>\<open>AUTOMATIC\<close> resolved by the factory.\<close>

definition requested_kind ::
  "virtual_greenscreen_factory \<Rightarrow> obs_data \<Rightarrow> virtual_greenscreen_provider" where
  "requested_kind fac d =
     (if data_provider d = AUTOMATIC then find_ideal_provider fac else data_provider d)"

text \<open>A call that asks for the kind \<^verbatim>\<open>INVALID\<close>.\<close>

fun requests_invalid :: "action \<Rightarrow> bool" where
  "requests_invalid (Update d) = (data_provider d = INVALID)"
| "requests_invalid (Switch_provider p) = (p = INVALID)"
| "requests_invalid _ = False"

text \<open>The render call is skipped at once: the guard at the head of \<^verbatim>\<open>video_render\<close>.\<close>

definition skipped :: "render_env \<Rightarrow> world \<Rightarrow> bool" where
  "skipped env w =
     (\<not> provider_ready w
      \<or> (render_target env = None \<and> render_parent env = None)
      \<or> render_base_width env (render_target env) = 0
      \<or> render_base_height env (render_target env) = 0)"

subsection \<open>Sample values\<close>

definition sample_factory :: virtual_greenscreen_factory where
  "sample_factory = \<lparr>nvidia_available = True\<rparr>"

definition sample_effect :: gs_effect where
  "sample_effect =
     \<lparr>has_texture_parameter = (\<lambda>n. True), has_float_parameter = (\<lambda>n. True), passes = 1\<rparr>"

definition sample_settings :: obs_data where
  "sample_settings = \<lparr>data_provider = NVIDIA_GREENSCREEN, data_mode = 1\<rparr>"

definition invalid_settings :: obs_data where
  "invalid_settings = \<lparr>data_provider = INVALID, data_mode = 1\<rparr>"

definition task_succeeds :: task_env where
  "task_succeeds =
     \<lparr>on_load = Returns (), on_set_mode = Returns (),
      stored_settings = \<lparr>data_provider = NVIDIA_GREENSCREEN, data_mode = 0\<rparr>\<rparr>"


definition load_throws_std :: task_env where
  "load_throws_std = task_succeeds\<lparr>on_load := Throws (Std_exception ''no device'')\<rparr>"

definition load_throws_other :: task_env where
  "load_throws_other = task_succeeds\<lparr>on_load := Throws Other_exception\<rparr>"

text \<open>An instance made with the sample settings: the switch task waits in the pool.\<close>

definition created :: world where
  "created = construct sample_factory 3 (Returns sample_effect) (Some sample_settings)"

text \<open>The same instance once the worker has run the task: the provider is loaded and ready.\<close>

definition loaded :: world where
  "loaded = threadpool_worker task_succeeds created"



definition sample_tick :: tick_env where
  "sample_tick =
     \<lparr>tick_target = Some 2, tick_base_width = (\<lambda>s. 1920), tick_base_height = (\<lambda>s. 1080),
      tick_restrict = (\<lambda>s. s)\<rparr>"

definition render_ok :: render_env where
  "render_ok =
     \<lparr>render_parent = Some 1, render_target = Some 2,
      render_base_width = (\<lambda>s. 1920), render_base_height = (\<lambda>s. 1080),
      filter_begin = True, captured_texture = 5,
      on_process = Returns 6, on_get_color = Returns 7\<rparr>"

definition render_process_throws :: render_env where
  "render_process_throws = render_ok\<lparr>on_process := Throws (Std_exception ''inference failed'')\<rparr>"

definition render_begin_fails :: render_env where
  "render_begin_fails = render_ok\<lparr>filter_begin := False\<rparr>"

definition render_zero_width :: render_env where
  "render_zero_width = render_ok\<lparr>render_base_width := (\<lambda>s. 0)\<rparr>"

section \<open>Properties\<close>

subsection \<open>Auxiliary facts\<close>

lemma emit_simps [simp]:
  "trace (emit e w) = trace w @ [e]"
  "provider (emit e w) = provider w"
  "provider_ui (emit e w) = provider_ui w"
  "provider_ready (emit e w) = provider_ready w"
  "provider_task (emit e w) = provider_task w"
  "nvidia_fx (emit e w) = nvidia_fx w"
  "effect (emit e w) = effect w"
  "input (emit e w) = input w"
  "output_color (emit e w) = output_color w"
  "output_alpha (emit e w) = output_alpha w"
  "dirty (emit e w) = dirty w"
  "size_field (emit e w) = size_field w"
  "pool_queue (emit e w) = pool_queue w"
  "pool_next (emit e w) = pool_next w"
  "fx_next (emit e w) = fx_next w"
  by (simp_all add: emit_def)

lemma composite_simps [simp]:
  "trace (composite w) = trace w @ composite_events w"
  "provider (composite w) = provider w"
  "provider_ui (composite w) = provider_ui w"
  "provider_ready (composite w) = provider_ready w"
  "provider_task (composite w) = provider_task w"
  "nvidia_fx (composite w) = nvidia_fx w"
  "effect (composite w) = effect w"
  "input (composite w) = input w"
  "output_color (composite w) = output_color w"
  "output_alpha (composite w) = output_alpha w"
  "dirty (composite w) = dirty w"
  "size_field (composite w) = size_field w"
  "pool_queue (composite w) = pool_queue w"
  "pool_next (composite w) = pool_next w"
  by (simp_all add: composite_def)

lemma composite_events_no_capture [simp]:
  "filter is_capture (composite_events w) = []"
  "filter is_process (composite_events w) = []"
  by (simp_all add: composite_events_def split: option.splits)

lemma composite_events_dirty [simp]:
  "composite_events (w\<lparr>dirty := b\<rparr>) = composite_events w"
  by (simp add: composite_events_def split: option.splits)

lemma capture_simps [simp]:
  "trace (capture env w) = trace w @ [Filter_begin True, Capture (size_field w)]"
  "provider (capture env w) = provider w"
  "provider_ready (capture env w) = provider_ready w"
  "provider_task (capture env w) = provider_task w"
  "nvidia_fx (capture env w) = nvidia_fx w"
  "effect (capture env w) = effect w"
  "input (capture env w) = captured_texture env"
  "output_color (capture env w) = captured_texture env"
  "output_alpha (capture env w) = captured_texture env"
  "dirty (capture env w) = dirty w"
  "size_field (capture env w) = size_field w"
  "pool_queue (capture env w) = pool_queue w"
  by (simp_all add: capture_def)

lemma process_frame:
  "provider (state_of (process env w)) = provider w"
  "provider_ready (state_of (process env w)) = provider_ready w"
  "provider_task (state_of (process env w)) = provider_task w"
  "nvidia_fx (state_of (process env w)) = nvidia_fx w"
  "dirty (state_of (process env w)) = dirty w"
  "pool_queue (state_of (process env w)) = pool_queue w"
  "size_field (state_of (process env w)) = size_field w"
  by (simp_all add: process_def nvvfxgs_process_def Let_def
      split: virtual_greenscreen_provider.splits option.splits outcome.splits)

lemma process_captures:
  "filter is_capture (trace (state_of (process env w))) = filter is_capture (trace w)"
  by (simp add: process_def nvvfxgs_process_def Let_def
      split: virtual_greenscreen_provider.splits option.splits outcome.splits)


lemma process_raised:
  "process env w = Raised e w1 \<Longrightarrow>
     provider w = NVIDIA_GREENSCREEN \<and> nvidia_fx w \<noteq> None
     \<and> (throws (on_process env) \<or> throws (on_get_color env))
     \<and> trace w1 = trace w @ Fx_process (input w) # (if throws (on_process env) then [] else [Fx_get_color])
     \<and> dirty w1 = dirty w \<and> provider_ready w1 = provider_ready w \<and> provider w1 = provider w
     \<and> nvidia_fx w1 = nvidia_fx w"
  by (auto simp: process_def nvvfxgs_process_def Let_def
      split: virtual_greenscreen_provider.splits option.splits outcome.splits)


lemma video_render_skipped:
  "skipped env w \<Longrightarrow> video_render env w = emit Skip_video_filter w"
  by (auto simp: video_render_def skipped_def Let_def split: option.splits)

lemma video_render_not_skipped:
  "\<not> skipped env w \<Longrightarrow> video_render env w =
    (if dirty w
     then (if filter_begin env
           then (case process env (capture env w) of
                   Raised e w1 \<Rightarrow> emit Skip_video_filter w1
                 | Ok w1 \<Rightarrow> composite (w1\<lparr>dirty := False\<rparr>))
           else emit Skip_video_filter (emit (Filter_begin False) w))
     else composite w)"
  by (auto simp: video_render_def skipped_def Let_def split: option.splits)


lemma video_render_frame:
  "provider (video_render env w) = provider w"
  "provider_ready (video_render env w) = provider_ready w"
  "provider_task (video_render env w) = provider_task w"
  "pool_queue (video_render env w) = pool_queue w"
  "nvidia_fx (video_render env w) = nvidia_fx w"
proof -
  note pf = process_frame [of env "capture env w"]
  show "provider (video_render env w) = provider w"
    using pf by (cases "skipped env w"; cases "process env (capture env w)")
      (simp_all add: video_render_skipped video_render_not_skipped)
  show "provider_ready (video_render env w) = provider_ready w"
    using pf by (cases "skipped env w"; cases "process env (capture env w)")
      (simp_all add: video_render_skipped video_render_not_skipped)
  show "provider_task (video_render env w) = provider_task w"
    using pf by (cases "skipped env w"; cases "process env (capture env w)")
      (simp_all add: video_render_skipped video_render_not_skipped)
  show "pool_queue (video_render env w) = pool_queue w"
    using pf by (cases "skipped env w"; cases "process env (capture env w)")
      (simp_all add: video_render_skipped video_render_not_skipped)
  show "nvidia_fx (video_render env w) = nvidia_fx w"
    using pf by (cases "skipped env w"; cases "process env (capture env w)")
      (simp_all add: video_render_skipped video_render_not_skipped)
qed

lemma video_render_captures:
  "n_captures (video_render env w) =
     n_captures w + (if \<not> skipped env w \<and> dirty w \<and> filter_begin env then 1 else 0)"
  using process_captures [of env "capture env w"]
  by (cases "skipped env w"; cases "process env (capture env w)")
     (simp_all add: video_render_skipped video_render_not_skipped n_captures_def)




lemma video_tick_dirty: "dirty (video_tick env w)"
  by (simp add: video_tick_def Let_def)

lemma video_tick_frame:
  "provider (video_tick env w) = provider w"
  "provider_ready (video_tick env w) = provider_ready w"
  "provider_task (video_tick env w) = provider_task w"
  "pool_queue (video_tick env w) = pool_queue w"
  "trace (video_tick env w) = trace w \<or> (\<exists>s. trace (video_tick env w) = trace w @ [Fx_size s])"
  "(nvidia_fx (video_tick env w) = None) = (nvidia_fx w = None)"
  by (simp_all add: video_tick_def nvvfxgs_size_def Let_def
      split: virtual_greenscreen_provider.splits option.splits)

lemma video_tick_counts:
  "n_captures (video_tick env w) = n_captures w"
  "n_processes (video_tick env w) = n_processes w"
  by (simp_all add: video_tick_def nvvfxgs_size_def Let_def n_captures_def n_processes_def
      split: virtual_greenscreen_provider.splits option.splits)

lemma events_since_append [simp]: "trace w' = trace w @ evs \<Longrightarrow> events_since w w' = evs"
  by (simp add: events_since_def)

text \<open>The sample instances, written out.\<close>

lemma loaded_eq: "loaded = \<lparr>size_field = (1, 1), provider = NVIDIA_GREENSCREEN,
    provider_ui = NVIDIA_GREENSCREEN, provider_ready = True,
    provider_task = Some 0,
    nvidia_fx = Some \<lparr>gs_mode = Some 0, gs_size = None, gs_id = 0\<rparr>,
    effect = Some sample_effect,
    input = 3, output_color = 3, output_alpha = 3, dirty = True,
    pool_queue = [], pool_next = 1, fx_next = 1,
    trace =
      [Log_switching INVALID NVIDIA_GREENSCREEN, Pool_push 0,
       Set_provider_ready False, Fx_load, Fx_created 0, Get_settings, Fx_set_mode 0,
       Log_switched INVALID NVIDIA_GREENSCREEN, Set_provider_ready True]\<rparr>"
  by (simp add: loaded_def created_def construct_def members_initialised_def update_def
      sample_settings_def sample_factory_def find_ideal_provider_def provider_priority_def
      switch_provider_def dequeue_task_def threadpool_push_def
      threadpool_worker_def task_switch_provider_def
      task_try_body_def task_unload_previous_def task_load_new_def nvvfxgs_load_def
      nvvfxgs_update_def greenscreen_mode_of_def task_succeeds_def emit_def Let_def)

subsection \<open>The frame pipeline\<close>

text \<open>
  C5. A render call is skipped, and the frame passed through unmodified, whenever the
  provider is not ready, or there is no render target (neither the filter's target nor
  its parent), or the target's base width is zero, or its base height is zero: the call
  does nothing but \<^verbatim>\<open>obs_source_skip_video_filter\<close> and leaves the instance as it was. The
  last two conditions do not mention readiness, so a zero-dimension frame is passed
  through whether or not the provider is ready.
\<close>

theorem render_skips_when_not_ready_or_empty:
  assumes "\<not> provider_ready w
           \<or> (render_target env = None \<and> render_parent env = None)
           \<or> render_base_width env (render_target env) = 0
           \<or> render_base_height env (render_target env) = 0"
  shows "video_render env w = emit Skip_video_filter w
         \<and> events_since w (video_render env w) = [Skip_video_filter]"
proof -
  from assms have "skipped env w" by (simp add: skipped_def)
  then have "video_render env w = emit Skip_video_filter w" by (rule video_render_skipped)
  then show ?thesis by simp
qed

theorem render_skips_witness:
  "provider_ready loaded
   \<and> render_base_width render_zero_width (render_target render_zero_width) = 0
   \<and> video_render render_zero_width loaded = emit Skip_video_filter loaded
   \<and> events_since loaded (video_render render_zero_width loaded) = [Skip_video_filter]"
  using render_skips_when_not_ready_or_empty [of loaded render_zero_width]
  by (simp add: loaded_eq render_zero_width_def render_ok_def)

text \<open>
  C10. When a render call is not skipped at the guard, the instance is dirty and
  \<^verbatim>\<open>obs_source_process_filter_begin\<close> fails, the call passes the frame through
  (\<^verbatim>\<open>obs_source_skip_video_filter\<close>) and returns: the dirty flag is still set, the render
  target's texture and the cached colour and alpha textures are the ones from before, and
  a following render whose capture begins does capture.
\<close>

theorem capture_begin_failure_passes_through:
  assumes "\<not> skipped env w" and "dirty w" and "\<not> filter_begin env"
  shows "video_render env w = emit Skip_video_filter (emit (Filter_begin False) w)
         \<and> events_since w (video_render env w) = [Filter_begin False, Skip_video_filter]
         \<and> dirty (video_render env w)
         \<and> input (video_render env w) = input w
         \<and> output_color (video_render env w) = output_color w
         \<and> output_alpha (video_render env w) = output_alpha w
         \<and> (\<not> skipped env' (video_render env w) \<and> filter_begin env' \<longrightarrow>
              n_captures (video_render env' (video_render env w)) = Suc (n_captures w))"
proof -
  have r: "video_render env w = emit Skip_video_filter (emit (Filter_begin False) w)"
    using assms by (simp add: video_render_not_skipped)
  have "n_captures (video_render env w) = n_captures w"
    using assms by (simp add: video_render_captures)
  moreover have "dirty (video_render env w)" using assms r by simp
  ultimately have
    "\<not> skipped env' (video_render env w) \<and> filter_begin env' \<longrightarrow>
       n_captures (video_render env' (video_render env w)) = Suc (n_captures w)"
    by (simp add: video_render_captures [of env'])
  with r assms show ?thesis by simp
qed

theorem capture_begin_failure_witness:
  "\<not> skipped render_begin_fails loaded \<and> dirty loaded \<and> \<not> filter_begin render_begin_fails
   \<and> events_since loaded (video_render render_begin_fails loaded)
       = [Filter_begin False, Skip_video_filter]
   \<and> dirty (video_render render_begin_fails loaded)
   \<and> output_color (video_render render_begin_fails loaded) = 3
   \<and> output_alpha (video_render render_begin_fails loaded) = 3
   \<and> n_captures (video_render render_ok (video_render render_begin_fails loaded)) = 1"
proof -
  have h: "\<not> skipped render_begin_fails loaded" "dirty loaded" "\<not> filter_begin render_begin_fails"
    by (simp_all add: skipped_def loaded_eq render_begin_fails_def render_ok_def)
  have k: "\<not> skipped render_ok (video_render render_begin_fails loaded)" "filter_begin render_ok"
    by (simp_all add: skipped_def video_render_frame loaded_eq render_ok_def)
  have n: "n_captures loaded = 0" "output_color loaded = 3" "output_alpha loaded = 3"
    by (simp_all add: n_captures_def loaded_eq)
  note t = capture_begin_failure_passes_through [OF h, of render_ok]
  from t k have c:
    "n_captures (video_render render_ok (video_render render_begin_fails loaded))
       = Suc (n_captures loaded)"
    by blast
  from t have d:
    "events_since loaded (video_render render_begin_fails loaded)
       = [Filter_begin False, Skip_video_filter]"
    "dirty (video_render render_begin_fails loaded)"
    "output_color (video_render render_begin_fails loaded) = output_color loaded"
    "output_alpha (video_render render_begin_fails loaded) = output_alpha loaded"
    by blast+
  show ?thesis using h c d n by simp
qed


text \<open>
  C7. When the \<^verbatim>\<open>try\<close> block around the provider's processing throws (whatever is thrown)
  in a render call that captured a frame, the call ends with
  \<^verbatim>\<open>obs_source_skip_video_filter\<close>: nothing of the composite is drawn, the dirty flag is
  still set and the provider is still ready. After the next tick, a render that is not
  skipped and whose capture begins captures and calls the provider's \<^verbatim>\<open>process\<close> again.
\<close>

theorem process_failure_skips_frame_and_stays_dirty:
  assumes "\<not> skipped env w" and "dirty w" and "filter_begin env"
    and "process env (capture env w) = Raised e w1"
  shows "video_render env w = emit Skip_video_filter w1
         \<and> events_since w (video_render env w)
             = [Filter_begin True, Capture (size_field w), Fx_process (captured_texture env)]
               @ (if throws (on_process env) then [] else [Fx_get_color])
               @ [Skip_video_filter]
         \<and> dirty (video_render env w)
         \<and> provider_ready (video_render env w)
         \<and> (\<not> skipped env' (video_tick tick (video_render env w)) \<and> filter_begin env' \<longrightarrow>
              n_captures (video_render env' (video_tick tick (video_render env w)))
                = Suc (n_captures (video_render env w))
              \<and> n_processes (video_render env' (video_tick tick (video_render env w)))
                = Suc (n_processes (video_render env w)))"
proof -
  let ?r = "video_render env w"
  let ?t = "video_tick tick ?r"
  have r: "?r = emit Skip_video_filter w1"
    using assms by (simp add: video_render_not_skipped)
  note p = process_raised [OF assms(4)]
  have ev: "events_since w ?r
      = [Filter_begin True, Capture (size_field w), Fx_process (captured_texture env)]
        @ (if throws (on_process env) then [] else [Fx_get_color]) @ [Skip_video_filter]"
    using p r by simp
  have d: "dirty ?r" using p r assms(2) by simp
  have rd: "provider_ready ?r" using assms(1) by (simp add: video_render_frame skipped_def)
  have fx: "provider ?t = NVIDIA_GREENSCREEN" "nvidia_fx ?t \<noteq> None"
    using p by (simp_all add: video_tick_frame video_render_frame)
  have retry: "n_captures (video_render env' ?t) = Suc (n_captures ?r)
      \<and> n_processes (video_render env' ?t) = Suc (n_processes ?r)"
    if a: "\<not> skipped env' ?t" "filter_begin env'"
  proof -
    have "n_captures (video_render env' ?t) = Suc (n_captures ?t)"
      using a by (simp add: video_render_captures video_tick_dirty)
    moreover have "n_processes (video_render env' ?t) = Suc (n_processes ?t)"
    proof -
      have "\<exists>evs. trace (state_of (process env' (capture env' ?t)))
              = trace ?t @ [Filter_begin True, Capture (size_field ?t),
                             Fx_process (captured_texture env')] @ evs
              \<and> filter is_process evs = []"
        using fx by (auto simp: process_def nvvfxgs_process_def Let_def split: outcome.splits)
      then obtain evs where e: "trace (state_of (process env' (capture env' ?t)))
              = trace ?t @ [Filter_begin True, Capture (size_field ?t),
                             Fx_process (captured_texture env')] @ evs"
          "filter is_process evs = []" by blast
      show ?thesis
        using a e video_tick_dirty [of tick ?r]
        by (cases "process env' (capture env' ?t)")
           (simp_all add: video_render_not_skipped n_processes_def)
    qed
    ultimately show ?thesis by (simp add: video_tick_counts)
  qed
  from r ev d rd retry show ?thesis by blast
qed

theorem process_failure_witness:
  "\<not> skipped render_process_throws loaded \<and> dirty loaded \<and> filter_begin render_process_throws
   \<and> process render_process_throws (capture render_process_throws loaded)
       = Raised (Std_exception ''inference failed'')
           (emit (Fx_process 5) (capture render_process_throws loaded))
   \<and> events_since loaded (video_render render_process_throws loaded)
       = [Filter_begin True, Capture (1, 1), Fx_process 5, Skip_video_filter]
   \<and> dirty (video_render render_process_throws loaded)
   \<and> provider_ready (video_render render_process_throws loaded)
   \<and> n_processes (video_render render_ok
        (video_tick sample_tick (video_render render_process_throws loaded))) = 2"
proof -
  let ?env = render_process_throws
  have h: "\<not> skipped ?env loaded" "dirty loaded" "filter_begin ?env"
    by (simp_all add: skipped_def loaded_eq render_process_throws_def render_ok_def)
  have p: "process ?env (capture ?env loaded)
      = Raised (Std_exception ''inference failed'') (emit (Fx_process 5) (capture ?env loaded))"
    by (simp add: process_def nvvfxgs_process_def loaded_eq render_process_throws_def
        render_ok_def capture_def emit_def)
  note t = process_failure_skips_frame_and_stays_dirty [OF h p, of render_ok sample_tick]
  have k: "\<not> skipped render_ok (video_tick sample_tick (video_render ?env loaded))"
      "filter_begin render_ok"
    by (simp_all add: skipped_def video_render_frame video_tick_frame loaded_eq render_ok_def)
  have v: "size_field loaded = (1, 1)" "captured_texture ?env = 5" "throws (on_process ?env)"
    by (simp_all add: loaded_eq render_process_throws_def render_ok_def)
  have n: "n_processes (video_render ?env loaded) = 1"
    using t v by (simp add: n_processes_def events_since_def loaded_eq)
  from t k have c: "n_processes (video_render render_ok
        (video_tick sample_tick (video_render ?env loaded)))
      = Suc (n_processes (video_render ?env loaded))"
    by blast
  from t have d:
    "events_since loaded (video_render ?env loaded)
      = [Filter_begin True, Capture (size_field loaded), Fx_process (captured_texture ?env)]
        @ (if throws (on_process ?env) then [] else [Fx_get_color]) @ [Skip_video_filter]"
    "dirty (video_render ?env loaded)"
    "provider_ready (video_render ?env loaded)"
    by blast+
  show ?thesis using h p c d v n by simp
qed






subsection \<open>Switching the provider\<close>

lemma dequeue_task_simps [simp]:
  "provider (dequeue_task w) = provider w"
  "provider_ui (dequeue_task w) = provider_ui w"
  "provider_ready (dequeue_task w) = provider_ready w"
  "provider_task (dequeue_task w) = None"
  "nvidia_fx (dequeue_task w) = nvidia_fx w"
  "dirty (dequeue_task w) = dirty w"
  "pool_next (dequeue_task w) = pool_next w"
  "pool_queue (dequeue_task w)
     = (case provider_task w of
          None \<Rightarrow> pool_queue w
        | Some t \<Rightarrow> filter (\<lambda>q. fst q \<noteq> t) (pool_queue w))"
  "trace (dequeue_task w)
     = trace w @ (case provider_task w of None \<Rightarrow> [] | Some t \<Rightarrow> [Pool_pop t, Task_await t])"
  by (simp_all add: dequeue_task_def threadpool_pop_def await_completion_def
      split: option.splits)

lemma switch_provider_other:
  assumes "p \<noteq> provider w"
  shows "provider (switch_provider p w) = p"
    and "provider_ui (switch_provider p w) = provider_ui w"
    and "provider_ready (switch_provider p w) = provider_ready w"
    and "provider_task (switch_provider p w) = Some (pool_next w)"
    and "nvidia_fx (switch_provider p w) = nvidia_fx w"
    and "dirty (switch_provider p w) = dirty w"
    and "pool_next (switch_provider p w) = Suc (pool_next w)"
    and "pool_queue (switch_provider p w)
          = (case provider_task w of
               None \<Rightarrow> pool_queue w
             | Some t \<Rightarrow> filter (\<lambda>q. fst q \<noteq> t) (pool_queue w))
            @ [(pool_next w, \<lparr>spd_provider = provider w\<rparr>)]"
    and "trace (switch_provider p w)
          = trace w @ Log_switching (provider w) p
              # (case provider_task w of None \<Rightarrow> [] | Some t \<Rightarrow> [Pool_pop t, Task_await t])
              @ [Pool_push (pool_next w)]"
  using assms
  by (simp_all add: switch_provider_def threadpool_push_def Let_def split: option.splits)

lemma switch_provider_same: "switch_provider (provider w) w = w"
  by (simp add: switch_provider_def)

lemma switch_provider_ready [simp]:
  "provider_ready (switch_provider p w) = provider_ready w"
  by (cases "p = provider w") (simp_all add: switch_provider_same switch_provider_other)

lemma task_frame:
  "provider (state_of (task_switch_provider env spd w)) = provider w"
  "provider_ui (state_of (task_switch_provider env spd w)) = provider_ui w"
  "provider_task (state_of (task_switch_provider env spd w)) = provider_task w"
  "pool_queue (state_of (task_switch_provider env spd w)) = pool_queue w"
  "pool_next (state_of (task_switch_provider env spd w)) = pool_next w"
  "dirty (state_of (task_switch_provider env spd w)) = dirty w"
  by (simp_all add: task_switch_provider_def task_try_body_def task_unload_previous_def
      task_load_new_def nvvfxgs_unload_def nvvfxgs_load_def nvvfxgs_update_def Let_def
      split: virtual_greenscreen_provider.splits outcome.splits exn.splits option.splits)

lemma task_ready:
  "provider_ready (state_of (task_switch_provider env spd w))
     = (first_thrown env (provider w) = None)"
  by (simp add: task_switch_provider_def task_try_body_def task_unload_previous_def
      task_load_new_def nvvfxgs_unload_def nvvfxgs_load_def nvvfxgs_update_def Let_def
      first_thrown_def
      split: virtual_greenscreen_provider.splits outcome.splits exn.splits option.splits)

text \<open>The events of a run of the switch task, by what it meets.\<close>

lemma task_events:
  "events_since w (state_of (task_switch_provider env spd w))
     = Set_provider_ready False
       # (if spd_provider spd = NVIDIA_GREENSCREEN
          then Fx_unload # (case nvidia_fx w of None \<Rightarrow> [] | Some g \<Rightarrow> [Fx_released (gs_id g)])
          else [])
       @ (if provider w = NVIDIA_GREENSCREEN
          then Fx_load
               # (if throws (on_load env) then []
                  else Fx_created (fx_next w)
                       # (if spd_provider spd = NVIDIA_GREENSCREEN then []
                          else (case nvidia_fx w of
                                  None \<Rightarrow> []
                                | Some g \<Rightarrow> [Fx_released (gs_id g)]))
                       @ [Get_settings,
                          Fx_set_mode (greenscreen_mode_of (data_mode (stored_settings env)))])
          else [])
       @ (case first_thrown env (provider w) of
            None \<Rightarrow> [Log_switched (spd_provider spd) (provider w), Set_provider_ready True]
          | Some (Std_exception m) \<Rightarrow> [Log_switch_failed m]
          | Some Other_exception \<Rightarrow> [])"
  by (simp add: task_switch_provider_def task_try_body_def task_unload_previous_def
      task_load_new_def nvvfxgs_unload_def nvvfxgs_load_def nvvfxgs_update_def Let_def
      first_thrown_def events_since_def
      split: virtual_greenscreen_provider.splits outcome.splits exn.splits option.splits)


lemma find_ideal_provider_cases:
  "find_ideal_provider fac = NVIDIA_GREENSCREEN \<or> find_ideal_provider fac = AUTOMATIC"
  by (simp add: find_ideal_provider_def provider_priority_def)

lemma requested_kind_not_invalid:
  "data_provider d \<noteq> INVALID \<Longrightarrow> requested_kind fac d \<noteq> INVALID"
  using find_ideal_provider_cases [of fac] by (auto simp: requested_kind_def)

lemma nvvfxgs_update_frame:
  "provider (state_of (nvvfxgs_update o1 d w)) = provider w"
  "provider_ready (state_of (nvvfxgs_update o1 d w)) = provider_ready w"
  "provider_task (state_of (nvvfxgs_update o1 d w)) = provider_task w"
  "pool_queue (state_of (nvvfxgs_update o1 d w)) = pool_queue w"
  by (simp_all add: nvvfxgs_update_def split: option.splits outcome.splits)

lemma update_unfold:
  "update fac d w =
     (let w1 = (if requested_kind fac d \<noteq> provider w
                then switch_provider (requested_kind fac d) (w\<lparr>provider_ui := requested_kind fac d\<rparr>)
                else w)
      in if provider_ready w1 \<and> provider w1 = NVIDIA_GREENSCREEN
         then state_of (nvvfxgs_update (Returns ()) d w1) else w1)"
  by (simp add: update_def requested_kind_def Let_def split: virtual_greenscreen_provider.splits)

lemma switch_provider_provider [simp]: "provider (switch_provider p w) = p"
  by (cases "p = provider w") (simp_all add: switch_provider_same switch_provider_other)

lemma switch_provider_ui:
  "provider_task (switch_provider p (w\<lparr>provider_ui := x\<rparr>)) = provider_task (switch_provider p w)"
  "pool_queue (switch_provider p (w\<lparr>provider_ui := x\<rparr>)) = pool_queue (switch_provider p w)"
  "provider (switch_provider p (w\<lparr>provider_ui := x\<rparr>)) = provider (switch_provider p w)"
  by (simp_all add: switch_provider_def threadpool_push_def dequeue_task_def threadpool_pop_def
      await_completion_def emit_def Let_def split: option.splits)

lemma update_frame:
  "provider (update fac d w) = requested_kind fac d"
  "provider_ready (update fac d w) = provider_ready w"
  "provider_task (update fac d w) = provider_task (switch_provider (requested_kind fac d) w)"
  "pool_queue (update fac d w) = pool_queue (switch_provider (requested_kind fac d) w)"
proof -
  define p where "p = requested_kind fac d"
  define w1 where
    "w1 = (if p \<noteq> provider w then switch_provider p (w\<lparr>provider_ui := p\<rparr>) else w)"
  have u: "update fac d w =
      (if provider_ready w1 \<and> provider w1 = NVIDIA_GREENSCREEN
       then state_of (nvvfxgs_update (Returns ()) d w1) else w1)"
    unfolding update_unfold Let_def w1_def p_def ..
  have a: "provider w1 = p" "provider_ready w1 = provider_ready w"
    "provider_task w1 = provider_task (switch_provider p w)"
    "pool_queue w1 = pool_queue (switch_provider p w)"
    by (simp_all add: w1_def switch_provider_ui switch_provider_same)
  show "provider (update fac d w) = requested_kind fac d"
    using a by (simp add: u nvvfxgs_update_frame p_def)
  show "provider_ready (update fac d w) = provider_ready w"
    using a by (simp add: u nvvfxgs_update_frame)
  show "provider_task (update fac d w) = provider_task (switch_provider (requested_kind fac d) w)"
    using a by (simp add: u nvvfxgs_update_frame p_def)
  show "pool_queue (update fac d w) = pool_queue (switch_provider (requested_kind fac d) w)"
    using a by (simp add: u nvvfxgs_update_frame p_def)
qed

lemma task_tracked_switch_provider:
  "task_tracked w \<Longrightarrow> task_tracked (switch_provider p w)"
  by (cases "p = provider w")
     (auto simp: task_tracked_def switch_provider_same switch_provider_other split: option.splits)

lemma task_tracked_update: "task_tracked w \<Longrightarrow> task_tracked (update fac d w)"
  using task_tracked_switch_provider [of w "requested_kind fac d"]
  by (simp add: task_tracked_def update_frame)

lemma threadpool_worker_frame:
  "provider (threadpool_worker env w) = provider w"
  "provider_task (threadpool_worker env w) = provider_task w"
  "pool_queue (threadpool_worker env w) = tl (pool_queue w)"
  by (simp_all add: threadpool_worker_def task_frame split: list.splits)

lemma task_tracked_worker: "task_tracked w \<Longrightarrow> task_tracked (threadpool_worker env w)"
  by (auto simp: task_tracked_def threadpool_worker_frame)

lemma task_tracked_step: "task_tracked w \<Longrightarrow> task_tracked (step fac a w)"
  by (cases a)
     (simp_all add: task_tracked_update task_tracked_switch_provider task_tracked_worker,
      simp_all add: task_tracked_def video_tick_frame video_render_frame)

lemma task_tracked_run: "task_tracked w \<Longrightarrow> task_tracked (run fac acts w)"
  by (induction acts arbitrary: w) (simp_all add: task_tracked_step)

lemma task_tracked_construct: "task_tracked (construct fac tex eff data)"
proof -
  have "task_tracked (case eff of Returns e \<Rightarrow> (members_initialised tex)\<lparr>effect := Some e\<rparr>
          | Throws x \<Rightarrow> emit Log_effect_failed (members_initialised tex))"
    by (simp add: task_tracked_def members_initialised_def split: outcome.splits)
  then show ?thesis
    by (simp add: construct_def Let_def task_tracked_update split: option.splits)
qed

lemma task_tracked_length: "task_tracked w \<Longrightarrow> length (pool_queue w) \<le> 1"
  by (auto simp: task_tracked_def)

lemma destroy_frame:
  "provider (destroy w) = provider w"
  "provider_ready (destroy w) = provider_ready w"
  "pool_queue (destroy w)
     = (case provider_task w of
          None \<Rightarrow> pool_queue w
        | Some t \<Rightarrow> filter (\<lambda>q. fst q \<noteq> t) (pool_queue w))"
  by (simp_all add: destroy_def Let_def nvvfxgs_unload_def
      split: virtual_greenscreen_provider.splits option.splits)

lemma task_tracked_destroy: "task_tracked w \<Longrightarrow> pool_queue (destroy w) = []"
  by (auto simp: task_tracked_def destroy_frame split: option.splits)

text \<open>
  C2. At most one switch task of an instance is in flight: in every state reached from a
  constructed instance by calls of \<^verbatim>\<open>update\<close>, \<^verbatim>\<open>switch_provider\<close>, \<^verbatim>\<open>video_tick\<close>,
  \<^verbatim>\<open>video_render\<close> and runs of the pool's worker, at most one task of the instance waits in
  the pool; when the worker takes it, none is left waiting behind the one that runs; and
  after the destructor none waits. A \<^verbatim>\<open>switch_provider\<close> that finds a task
  first pops it from the pool, then awaits it, and only then pushes the new task; the
  queue it leaves holds the new task behind whatever the pop left.
\<close>

theorem at_most_one_switch_task:
  "length (pool_queue (run fac acts (construct fac tex eff data))) \<le> 1
   \<and> pool_queue (threadpool_worker env (run fac acts (construct fac tex eff data))) = []
   \<and> pool_queue (destroy (run fac acts (construct fac tex eff data))) = []
   \<and> (p \<noteq> provider w \<and> provider_task w = Some t \<longrightarrow>
        events_since w (switch_provider p w)
          = [Log_switching (provider w) p, Pool_pop t, Task_await t, Pool_push (pool_next w)]
        \<and> pool_queue (switch_provider p w)
          = filter (\<lambda>q. fst q \<noteq> t) (pool_queue w) @ [(pool_next w, \<lparr>spd_provider = provider w\<rparr>)])
   \<and> (p \<noteq> provider w \<and> provider_task w = None \<longrightarrow>
        events_since w (switch_provider p w)
          = [Log_switching (provider w) p, Pool_push (pool_next w)])"
proof -
  have "task_tracked (run fac acts (construct fac tex eff data))"
    by (simp add: task_tracked_run task_tracked_construct)
  then have "length (pool_queue (run fac acts (construct fac tex eff data))) \<le> 1"
      "pool_queue (destroy (run fac acts (construct fac tex eff data))) = []"
    by (rule task_tracked_length, rule task_tracked_destroy)
  moreover from this(1)
  have "pool_queue (threadpool_worker env (run fac acts (construct fac tex eff data))) = []"
    by (cases "pool_queue (run fac acts (construct fac tex eff data))")
       (simp_all add: threadpool_worker_frame)
  ultimately show ?thesis
    by (simp add: switch_provider_other events_since_def)
qed

lemma created_eq: "created = \<lparr>size_field = (1, 1), provider = NVIDIA_GREENSCREEN,
    provider_ui = NVIDIA_GREENSCREEN, provider_ready = False,
    provider_task = Some 0, nvidia_fx = None,
    effect = Some sample_effect,
    input = 3, output_color = 3, output_alpha = 3, dirty = True,
    pool_queue = [(0, \<lparr>spd_provider = INVALID\<rparr>)], pool_next = 1, fx_next = 0,
    trace = [Log_switching INVALID NVIDIA_GREENSCREEN, Pool_push 0]\<rparr>"
  by (simp add: created_def construct_def members_initialised_def update_def sample_settings_def
      sample_factory_def find_ideal_provider_def provider_priority_def switch_provider_def
      dequeue_task_def threadpool_push_def emit_def Let_def)

theorem at_most_one_switch_task_witness:
  "INVALID \<noteq> provider created \<and> provider_task created = Some 0
   \<and> length (pool_queue (run sample_factory [Switch_provider INVALID, Update sample_settings]
        created)) \<le> 1
   \<and> events_since created (switch_provider INVALID created)
       = [Log_switching NVIDIA_GREENSCREEN INVALID, Pool_pop 0, Task_await 0, Pool_push 1]
   \<and> pool_queue (switch_provider INVALID created) = [(1, \<lparr>spd_provider = NVIDIA_GREENSCREEN\<rparr>)]"
proof -
  have h: "INVALID \<noteq> provider created" "provider_task created = Some 0"
    by (simp_all add: created_eq)
  have v: "pool_next created = 1" "provider created = NVIDIA_GREENSCREEN"
     "filter (\<lambda>q. fst q \<noteq> 0) (pool_queue created) = []"
    by (simp_all add: created_eq)
  note t = at_most_one_switch_task [of sample_factory
      "[Switch_provider INVALID, Update sample_settings]" 3 "Returns sample_effect"
      "Some sample_settings" task_succeeds INVALID created 0, folded created_def]
  from t have a: "length (pool_queue (run sample_factory
      [Switch_provider INVALID, Update sample_settings] created)) \<le> 1"
    by blast
  from t h have b: "events_since created (switch_provider INVALID created)
          = [Log_switching (provider created) INVALID, Pool_pop 0, Task_await 0,
             Pool_push (pool_next created)]"
     "pool_queue (switch_provider INVALID created)
          = filter (\<lambda>q. fst q \<noteq> 0) (pool_queue created)
            @ [(pool_next created, \<lparr>spd_provider = provider created\<rparr>)]"
    by blast+
  show ?thesis using h a b v by simp
qed

text \<open>
  C9. Asking \<^verbatim>\<open>switch_provider\<close> for the kind that is already the current one does nothing:
  the state after the call is the state before it, so the current kind, the readiness,
  the task handle and the pool's queue are as they were and no event (no push of a task)
  is recorded.
\<close>

theorem switch_to_current_kind_is_noop:
  "p = provider w \<Longrightarrow>
     switch_provider p w = w
     \<and> provider (switch_provider p w) = provider w
     \<and> provider_ready (switch_provider p w) = provider_ready w
     \<and> provider_task (switch_provider p w) = provider_task w
     \<and> pool_queue (switch_provider p w) = pool_queue w
     \<and> events_since w (switch_provider p w) = []"
  by (simp add: switch_provider_same events_since_def)

theorem switch_to_current_kind_witness:
  "NVIDIA_GREENSCREEN = provider created
   \<and> switch_provider NVIDIA_GREENSCREEN created = created
   \<and> pool_queue (switch_provider NVIDIA_GREENSCREEN created) = [(0, \<lparr>spd_provider = INVALID\<rparr>)]
   \<and> provider_task (switch_provider NVIDIA_GREENSCREEN created) = Some 0"
proof -
  have h: "NVIDIA_GREENSCREEN = provider created" by (simp add: created_eq)
  have v: "pool_queue created = [(0, \<lparr>spd_provider = INVALID\<rparr>)]" "provider_task created = Some 0"
    by (simp_all add: created_eq)
  note t = switch_to_current_kind_is_noop [OF h]
  from t have a: "switch_provider NVIDIA_GREENSCREEN created = created"
    "pool_queue (switch_provider NVIDIA_GREENSCREEN created) = pool_queue created"
    "provider_task (switch_provider NVIDIA_GREENSCREEN created) = provider_task created"
    by blast+
  show ?thesis using h a(1) v by simp
qed

text \<open>
  C1, as the code has it. \<^verbatim>\<open>switch_provider\<close> never changes \<^verbatim>\<open>_provider_ready\<close>: for a kind
  that differs from the current one it records the new kind at once and queues a task that
  carries the old kind, and leaves the readiness as it was. The readiness is cleared by the
  switch task, as the first thing it does, before it unloads anything. A render call
  between a request that leaves \<^verbatim>\<open>NVIDIA_GREENSCREEN\<close> and the run of its task still sees the
  old readiness, but it dispatches on the new kind and so does not call the provider's
  \<^verbatim>\<open>process\<close>.
\<close>

theorem ready_cleared_by_task_not_by_request:
  "provider_ready (switch_provider p w) = provider_ready w
   \<and> (p \<noteq> provider w \<longrightarrow>
        provider (switch_provider p w) = p
        \<and> pool_queue (switch_provider p w) \<noteq> []
        \<and> last (pool_queue (switch_provider p w)) = (pool_next w, \<lparr>spd_provider = provider w\<rparr>))
   \<and> take 1 (events_since w (state_of (task_switch_provider env spd w)))
       = [Set_provider_ready False]
   \<and> (p \<noteq> provider w \<and> provider w = NVIDIA_GREENSCREEN \<longrightarrow>
        n_processes (video_render renv (switch_provider p w)) = n_processes w)"
proof -
  have r: "n_processes (video_render renv (switch_provider p w)) = n_processes w"
    if a: "p \<noteq> provider w" "provider w = NVIDIA_GREENSCREEN"
  proof -
    let ?w = "switch_provider p w"
    have q: "provider (capture renv ?w) \<noteq> NVIDIA_GREENSCREEN" using a by simp
    then have "process renv (capture renv ?w) = Ok (capture renv ?w)"
      by (simp add: process_def split: virtual_greenscreen_provider.splits)
    then have "n_processes (video_render renv ?w) = n_processes ?w"
      by (cases "skipped renv ?w")
         (simp_all add: video_render_skipped video_render_not_skipped n_processes_def)
    moreover have "n_processes ?w = n_processes w"
      using a by (simp add: n_processes_def switch_provider_other split: option.splits)
    ultimately show ?thesis by simp
  qed
  have s: "provider_ready (switch_provider p w) = provider_ready w
      \<and> (p \<noteq> provider w \<longrightarrow>
        provider (switch_provider p w) = p
        \<and> pool_queue (switch_provider p w) \<noteq> []
        \<and> last (pool_queue (switch_provider p w)) = (pool_next w, \<lparr>spd_provider = provider w\<rparr>))"
    by (simp add: switch_provider_other)
  have t: "take 1 (events_since w (state_of (task_switch_provider env spd w)))
       = [Set_provider_ready False]"
    by (simp add: task_events)
  from r s t show ?thesis by blast
qed

text \<open>
  C1 as stated fails: on the loaded sample instance, which is ready, a request for another
  kind returns with the instance still ready, and a render call that follows it is not
  skipped (it captures a frame).
\<close>

theorem request_leaves_ready_counterexample:
  "INVALID \<noteq> provider loaded \<and> provider_ready loaded
   \<and> provider_ready (switch_provider INVALID loaded)
   \<and> provider (switch_provider INVALID loaded) = INVALID
   \<and> n_captures loaded = 0
   \<and> n_captures (video_render render_ok (switch_provider INVALID loaded)) = 1"
  by (simp add: n_captures_def video_render_def process_def
      capture_def composite_def composite_events_def emit_def Let_def
      switch_provider_def dequeue_task_def threadpool_pop_def await_completion_def
      threadpool_push_def
      loaded_eq render_ok_def sample_effect_def)

theorem ready_cleared_by_task_witness:
  "INVALID \<noteq> provider loaded \<and> provider loaded = NVIDIA_GREENSCREEN
   \<and> provider_ready (switch_provider INVALID loaded) = provider_ready loaded
   \<and> provider (switch_provider INVALID loaded) = INVALID
   \<and> last (pool_queue (switch_provider INVALID loaded)) = (1, \<lparr>spd_provider = NVIDIA_GREENSCREEN\<rparr>)
   \<and> take 1 (events_since (switch_provider INVALID loaded)
        (state_of (task_switch_provider task_succeeds \<lparr>spd_provider = NVIDIA_GREENSCREEN\<rparr>
           (switch_provider INVALID loaded)))) = [Set_provider_ready False]
   \<and> n_processes (video_render render_ok (switch_provider INVALID loaded)) = n_processes loaded"
proof -
  have h: "INVALID \<noteq> provider loaded" "provider loaded = NVIDIA_GREENSCREEN"
    by (simp_all add: loaded_eq)
  have v: "pool_next loaded = 1" by (simp add: loaded_eq)
  note t = ready_cleared_by_task_not_by_request [of INVALID loaded]
  from t [of task_succeeds "\<lparr>spd_provider = NVIDIA_GREENSCREEN\<rparr>" render_ok] h
  have a: "provider_ready (switch_provider INVALID loaded) = provider_ready loaded"
    "provider (switch_provider INVALID loaded) = INVALID"
    "last (pool_queue (switch_provider INVALID loaded))
       = (pool_next loaded, \<lparr>spd_provider = provider loaded\<rparr>)"
    "n_processes (video_render render_ok (switch_provider INVALID loaded)) = n_processes loaded"
    by blast+
  have b: "take 1 (events_since (switch_provider INVALID loaded)
        (state_of (task_switch_provider task_succeeds \<lparr>spd_provider = NVIDIA_GREENSCREEN\<rparr>
           (switch_provider INVALID loaded)))) = [Set_provider_ready False]"
    using ready_cleared_by_task_not_by_request
      [of INVALID "switch_provider INVALID loaded" task_succeeds
          "\<lparr>spd_provider = NVIDIA_GREENSCREEN\<rparr>" render_ok]
    by blast
  show ?thesis using h a b v by simp
qed



lemma wide_mode: "greenscreen_mode_of 4294967297 = 1"
  by (simp add: greenscreen_mode_of_def)




text \<open>The outcome of a run of the switch task, by what it meets.\<close>

lemma switch_task_outcome:
  "(first_thrown env (provider w) = Some (Std_exception m) \<longrightarrow>
      task_switch_provider env spd w = Ok (state_of (task_switch_provider env spd w))
      \<and> last (events_since w (state_of (task_switch_provider env spd w))) = Log_switch_failed m)
   \<and> (first_thrown env (provider w) = Some Other_exception \<longrightarrow>
        task_switch_provider env spd w
          = Raised Other_exception (state_of (task_switch_provider env spd w))
        \<and> (\<forall>m. Log_switch_failed m
              \<notin> set (events_since w (state_of (task_switch_provider env spd w)))))
   \<and> provider_ready (state_of (task_switch_provider env spd w))
       = (first_thrown env (provider w) = None)
   \<and> (first_thrown env (provider w) \<noteq> None \<longrightarrow>
        Set_provider_ready True
          \<notin> set (events_since w (state_of (task_switch_provider env spd w))))
   \<and> pool_queue (state_of (task_switch_provider env spd w)) = pool_queue w
   \<and> provider_task (state_of (task_switch_provider env spd w)) = provider_task w
   \<and> (\<forall>t. Pool_push t \<notin> set (events_since w (state_of (task_switch_provider env spd w))))
   \<and> length (filter (\<lambda>e. e = Fx_load)
        (events_since w (state_of (task_switch_provider env spd w)))) \<le> 1"
proof -
  let ?r = "task_switch_provider env spd w"
  let ?evs = "events_since w (state_of ?r)"
  have a: "first_thrown env (provider w) = Some (Std_exception m) \<longrightarrow>
      ?r = Ok (state_of ?r) \<and> last ?evs = Log_switch_failed m"
  proof
    assume f: "first_thrown env (provider w) = Some (Std_exception m)"
    have "?r = Ok (state_of ?r)"
      using f
      by (simp add: task_switch_provider_def task_try_body_def task_unload_previous_def
          task_load_new_def nvvfxgs_unload_def nvvfxgs_load_def nvvfxgs_update_def Let_def
          first_thrown_def
          split: virtual_greenscreen_provider.splits outcome.splits exn.splits if_splits
            option.splits)
    moreover have "last ?evs = Log_switch_failed m"
      using f by (simp add: task_events)
    ultimately show "?r = Ok (state_of ?r) \<and> last ?evs = Log_switch_failed m" ..
  qed
  have a': "first_thrown env (provider w) = Some Other_exception \<longrightarrow>
      ?r = Raised Other_exception (state_of ?r) \<and> (\<forall>m. Log_switch_failed m \<notin> set ?evs)"
  proof
    assume f: "first_thrown env (provider w) = Some Other_exception"
    have "?r = Raised Other_exception (state_of ?r)"
      using f
      by (simp add: task_switch_provider_def task_try_body_def task_unload_previous_def
          task_load_new_def nvvfxgs_unload_def nvvfxgs_load_def nvvfxgs_update_def Let_def
          first_thrown_def
          split: virtual_greenscreen_provider.splits outcome.splits exn.splits if_splits
            option.splits)
    moreover have "\<forall>m. Log_switch_failed m \<notin> set ?evs"
      using f by (simp add: task_events split: option.splits)
    ultimately show "?r = Raised Other_exception (state_of ?r)
        \<and> (\<forall>m. Log_switch_failed m \<notin> set ?evs)" ..
  qed
  have b: "first_thrown env (provider w) \<noteq> None \<longrightarrow> Set_provider_ready True \<notin> set ?evs"
    by (auto simp: task_events split: exn.splits if_splits option.splits)
  have c: "\<forall>t. Pool_push t \<notin> set ?evs"
    by (simp add: task_events split: option.splits exn.splits)
  have d: "length (filter (\<lambda>e. e = Fx_load) ?evs) \<le> 1"
    by (simp add: task_events split: option.splits exn.splits)
  from a a' b c d show ?thesis by (simp add: task_ready task_frame)
qed

text \<open>
  C4, where the code parts from it. The switch task of the sample instance waits in the
  pool, and the load throws an object that is not derived from \<^verbatim>\<open>std::exception\<close>. The
  handler of the task, \<^verbatim>\<open>catch (std::exception const&)\<close>, does not take it: the run records
  the clearing of the readiness and the load, logs nothing, and the exception leaves the
  task. With a \<^verbatim>\<open>std::exception\<close> from the load the same run ends with the log of the error.
\<close>

theorem switch_task_unlogged_failure:
  "pool_queue created = [(0, \<lparr>spd_provider = INVALID\<rparr>)]
   \<and> first_thrown load_throws_other (provider created) = Some Other_exception
   \<and> task_switch_provider load_throws_other \<lparr>spd_provider = INVALID\<rparr> created
       = Raised Other_exception
           (created\<lparr>trace := trace created @ [Set_provider_ready False, Fx_load]\<rparr>)
   \<and> events_since created (threadpool_worker load_throws_other created)
       = [Set_provider_ready False, Fx_load]
   \<and> events_since created (threadpool_worker load_throws_std created)
       = [Set_provider_ready False, Fx_load, Log_switch_failed ''no device'']"
  by (simp add: first_thrown_def events_since_def threadpool_worker_def
      task_switch_provider_def task_try_body_def task_unload_previous_def
      task_load_new_def nvvfxgs_load_def Let_def emit_def
      load_throws_other_def load_throws_std_def task_succeeds_def created_eq)

lemma invalid_idle_imp: "invalid_idle w \<Longrightarrow> invalid_not_ready w"
  by (simp add: invalid_idle_def invalid_not_ready_def)

lemma invalid_idle_switch_provider:
  "p \<noteq> INVALID \<Longrightarrow> invalid_idle (switch_provider p w)"
  by (simp add: invalid_idle_def)

lemma invalid_idle_update:
  "data_provider d \<noteq> INVALID \<Longrightarrow> invalid_idle (update fac d w)"
  using requested_kind_not_invalid [of d fac] by (simp add: invalid_idle_def update_frame)

lemma threadpool_worker_ready:
  "pool_queue w = [] \<Longrightarrow> threadpool_worker env w = w"
  by (simp add: threadpool_worker_def)

lemma invalid_idle_worker: "invalid_idle w \<Longrightarrow> invalid_idle (threadpool_worker env w)"
  by (cases "provider w = INVALID")
     (simp_all add: invalid_idle_def threadpool_worker_ready threadpool_worker_frame)

lemma invalid_idle_step:
  "invalid_idle w \<Longrightarrow> \<not> requests_invalid a \<Longrightarrow> invalid_idle (step fac a w)"
  by (cases a)
     (simp_all add: invalid_idle_update invalid_idle_switch_provider invalid_idle_worker,
      simp_all add: invalid_idle_def video_tick_frame video_render_frame)

lemma invalid_idle_run:
  "invalid_idle w \<Longrightarrow> \<forall>a \<in> set acts. \<not> requests_invalid a \<Longrightarrow> invalid_idle (run fac acts w)"
  by (induction acts arbitrary: w) (simp_all add: invalid_idle_step)

lemma invalid_idle_construct: "invalid_idle (construct fac tex eff data)"
proof -
  define w1 where "w1 = (case eff of Returns e \<Rightarrow> (members_initialised tex)\<lparr>effect := Some e\<rparr>
          | Throws x \<Rightarrow> emit Log_effect_failed (members_initialised tex))"
  have a: "provider w1 = INVALID" "\<not> provider_ready w1" "pool_queue w1 = []"
    by (simp_all add: w1_def members_initialised_def split: outcome.splits)
  have "invalid_idle (update fac d w1)" for d
  proof (cases "requested_kind fac d = INVALID")
    case True
    moreover have "switch_provider INVALID w1 = w1"
      using switch_provider_same [of w1] a by simp
    ultimately show ?thesis using a by (simp add: invalid_idle_def update_frame)
  next
    case False
    then show ?thesis by (simp add: invalid_idle_def update_frame)
  qed
  moreover have "invalid_idle w1" using a by (simp add: invalid_idle_def)
  ultimately show ?thesis
    by (simp add: construct_def Let_def w1_def split: option.splits)
qed

lemma invalid_not_ready_destroy: "invalid_not_ready (destroy w) = invalid_not_ready w"
  by (simp add: invalid_not_ready_def destroy_frame)

text \<open>
  C8, as the code has it. An instance of kind \<^verbatim>\<open>INVALID\<close> is not ready when it has been
  constructed, and the invariant is kept by \<^verbatim>\<open>video_tick\<close>, \<^verbatim>\<open>video_render\<close> and the destructor,
  by \<^verbatim>\<open>switch_provider\<close> and \<^verbatim>\<open>update\<close> when the kind they ask for is not \<^verbatim>\<open>INVALID\<close>, and by a
  run of the switch task when the current kind is not \<^verbatim>\<open>INVALID\<close> or a step of it fails.
  Hence it holds in every state reached from a constructed instance by calls none of which
  asks for \<^verbatim>\<open>INVALID\<close>, and after the destructor there.
\<close>

theorem invalid_not_ready_unless_invalid_requested:
  "invalid_not_ready (construct fac tex eff data)
   \<and> ((\<forall>a \<in> set acts. \<not> requests_invalid a) \<longrightarrow>
        invalid_not_ready (run fac acts (construct fac tex eff data))
        \<and> invalid_not_ready (destroy (run fac acts (construct fac tex eff data))))
   \<and> (invalid_not_ready w \<longrightarrow>
        invalid_not_ready (video_tick tenv w)
        \<and> invalid_not_ready (video_render renv w)
        \<and> invalid_not_ready (destroy w))
   \<and> (invalid_not_ready w \<and> p \<noteq> INVALID \<longrightarrow> invalid_not_ready (switch_provider p w))
   \<and> (invalid_not_ready w \<and> data_provider d \<noteq> INVALID \<longrightarrow> invalid_not_ready (update fac d w))
   \<and> (provider w \<noteq> INVALID \<or> first_thrown env (provider w) \<noteq> None \<longrightarrow>
        invalid_not_ready (state_of (task_switch_provider env spd w)))"
proof -
  have a: "invalid_not_ready (construct fac tex eff data)"
    by (simp add: invalid_idle_imp invalid_idle_construct)
  have b: "invalid_not_ready (run fac acts (construct fac tex eff data))
        \<and> invalid_not_ready (destroy (run fac acts (construct fac tex eff data)))"
    if "\<forall>a \<in> set acts. \<not> requests_invalid a"
    using that
    by (simp add: invalid_not_ready_destroy invalid_idle_imp invalid_idle_run
        invalid_idle_construct)
  have c: "invalid_not_ready w \<longrightarrow>
        invalid_not_ready (video_tick tenv w)
        \<and> invalid_not_ready (video_render renv w)
        \<and> invalid_not_ready (destroy w)"
    by (simp add: invalid_not_ready_def video_tick_frame video_render_frame destroy_frame)
  have d: "invalid_not_ready w \<and> p \<noteq> INVALID \<longrightarrow> invalid_not_ready (switch_provider p w)"
    by (simp add: invalid_not_ready_def)
  have e: "invalid_not_ready w \<and> data_provider d \<noteq> INVALID
        \<longrightarrow> invalid_not_ready (update fac d w)"
    by (simp add: invalid_idle_imp invalid_idle_update)
  have f: "provider w \<noteq> INVALID \<or> first_thrown env (provider w) \<noteq> None \<longrightarrow>
        invalid_not_ready (state_of (task_switch_provider env spd w))"
    by (auto simp: invalid_not_ready_def task_frame task_ready)
  from a b c d e f show ?thesis by blast
qed

text \<open>
  C8 as stated, for every operation, fails: on the loaded sample instance a request for
  \<^verbatim>\<open>INVALID\<close> (through \<^verbatim>\<open>switch_provider\<close> or through \<^verbatim>\<open>update\<close>) leaves an \<^verbatim>\<open>INVALID\<close> instance that
  is ready; and on an instance where the invariant holds with such a request pending, the
  run of the switch task, which loads nothing, sets the readiness.
\<close>

theorem invalid_ready_counterexample:
  "invalid_not_ready loaded
   \<and> \<not> invalid_not_ready (switch_provider INVALID loaded)
   \<and> \<not> invalid_not_ready (update sample_factory invalid_settings loaded)
   \<and> invalid_not_ready (switch_provider INVALID created)
   \<and> \<not> invalid_not_ready (threadpool_worker task_succeeds (switch_provider INVALID created))"
  by (simp add: invalid_not_ready_def update_frame requested_kind_def invalid_settings_def
      threadpool_worker_def task_ready task_frame first_thrown_def task_succeeds_def
      switch_provider_other loaded_eq created_eq)

theorem invalid_not_ready_witness:
  "\<not> requests_invalid (Worker task_succeeds) \<and> \<not> requests_invalid (Video_tick sample_tick)
   \<and> \<not> requests_invalid (Video_render render_ok) \<and> \<not> requests_invalid (Update sample_settings)
   \<and> invalid_not_ready (run sample_factory
        [Worker task_succeeds, Video_tick sample_tick, Video_render render_ok,
         Update sample_settings] created)
   \<and> invalid_not_ready created
   \<and> invalid_not_ready (video_render render_ok created)
   \<and> AUTOMATIC \<noteq> INVALID
   \<and> invalid_not_ready (switch_provider AUTOMATIC created)"
proof -
  let ?acts = "[Worker task_succeeds, Video_tick sample_tick, Video_render render_ok,
         Update sample_settings]"
  have h: "\<not> requests_invalid (Worker task_succeeds)" "\<not> requests_invalid (Video_tick sample_tick)"
      "\<not> requests_invalid (Video_render render_ok)" "\<not> requests_invalid (Update sample_settings)"
    by (simp_all add: sample_settings_def)
  then have hs: "\<forall>a \<in> set ?acts. \<not> requests_invalid a" by simp
  note t = invalid_not_ready_unless_invalid_requested
    [of sample_factory 3 "Returns sample_effect" "Some sample_settings" ?acts created
        sample_tick render_ok AUTOMATIC, folded created_def]
  from t have a: "invalid_not_ready created" by blast
  from t hs have b: "invalid_not_ready (run sample_factory ?acts created)" by blast
  from t a have c: "invalid_not_ready (video_render render_ok created)"
    "invalid_not_ready (switch_provider AUTOMATIC created)"
    by blast+
  show ?thesis using h a b c by simp
qed

end
